theory Spec2Isabelle
  imports Main "HOL-Library.AList"
begin

section \<open>Text\<close>

text \<open>
  A Python \<open>str\<close> is a sequence of Unicode code points; it is modelled as the list of
  their numbers, so that \<open>length\<close>, \<open>take\<close> and \<open>drop\<close> count what Python's \<open>len\<close>
  and slices count. \<open>lit\<close> turns an ASCII literal into such a list.
\<close>

type_synonym str = "nat list"

abbreviation lit :: "string \<Rightarrow> str" where
  "lit s \<equiv> map of_char s"

text \<open>
  \<open>str.isspace\<close> for one code point: the table of CPython 3 (bidirectional classes
  WS, B, S and general category Zs).
\<close>

definition is_space :: "nat \<Rightarrow> bool" where
  "is_space c =
     (c \<in> set [0x9, 0xA, 0xB, 0xC, 0xD, 0x1C, 0x1D, 0x1E, 0x1F, 0x20, 0x85, 0xA0, 0x1680,
                0x2000, 0x2001, 0x2002, 0x2003, 0x2004, 0x2005, 0x2006, 0x2007, 0x2008,
                0x2009, 0x200A, 0x2028, 0x2029, 0x202F, 0x205F, 0x3000])"

text \<open>\<open>s.strip()\<close>: drops the whitespace at both ends.\<close>

definition py_strip :: "str \<Rightarrow> str" where
  "py_strip s = rev (dropWhile is_space (rev (dropWhile is_space s)))"

text \<open>
  \<open>str.lower\<close> for one code point. The program compares lower-cased text with ASCII
  literals only, and uses its length. So the table is modelled as far as that goes:
  the ASCII capitals become their small letters; U+0130 becomes \<open>i\<close> followed by U+0307
  (the one code point whose lower-case form has two code points); U+212A (KELVIN SIGN)
  becomes \<open>k\<close>; every other code point has a lower-case form of one code point
  (itself for the rest of ASCII, a code point outside ASCII otherwise), for which the
  code point itself stands.
\<close>

definition lower_cp :: "nat \<Rightarrow> str" where
  "lower_cp c =
     (if 0x41 \<le> c \<and> c \<le> 0x5A then [c + 0x20]
      else if c = 0x130 then [0x69, 0x307]
      else if c = 0x212A then [0x6B]
      else [c])"

definition py_lower :: "str \<Rightarrow> str" where
  "py_lower s = concat (map lower_cp s)"

text \<open>\<open>s.startswith(sub)\<close>, \<open>s.find(sub)\<close> (the lowest index, or \<open>-1\<close>) and \<open>sub in s\<close>.\<close>

fun startswith :: "str \<Rightarrow> str \<Rightarrow> bool" where
  "startswith s [] = True"
| "startswith [] (c # cs) = False"
| "startswith (x # xs) (c # cs) = (x = c \<and> startswith xs cs)"

fun find_from :: "str \<Rightarrow> str \<Rightarrow> nat \<Rightarrow> int" where
  "find_from sub [] i = (if sub = [] then int i else - 1)"
| "find_from sub (x # xs) i =
     (if startswith (x # xs) sub then int i else find_from sub xs (Suc i))"

definition py_find :: "str \<Rightarrow> str \<Rightarrow> int" where
  "py_find s sub = find_from sub s 0"

definition py_in :: "str \<Rightarrow> str \<Rightarrow> bool" where
  "py_in sub s = (py_find s sub \<noteq> - 1)"

section \<open>Configuration\<close>

definition MODEL_WAIT_SECONDS :: nat where
  "MODEL_WAIT_SECONDS = 15"

definition BACKUP_SUFFIX :: str where
  "BACKUP_SUFFIX = lit ''.bak_aiagent''"

definition CACHE_FILENAME :: str where
  "CACHE_FILENAME = lit ''.resume_ai_cache.json''"

definition PDF_RELATIVE_PATH :: str where
  "PDF_RELATIVE_PATH =
     lit ''assets'' @ [0x5C] @ lit ''resume'' @ [0x5C] @ lit ''Mohammad_Burhan_Resume.pdf''"

section \<open>The world the program runs in\<close>

text \<open>
  A request is the list of role-tagged messages. The remote endpoint answers a call with
  the generated text, with an error of the class \<open>APIError\<close>, or with any other
  exception.
\<close>

record message =
  role :: str
  content :: str

datatype reply = Content str | ApiError str | OtherError str

text \<open>What an attempt leaves in \<open>last_error\<close>, and the exceptions that leave a function.\<close>

datatype failure = ApiFailure str | OtherFailure str | KeyNotSet

datatype exn = LLMFailed "failure option" | FileNotFound str | PdfUnreadable | EOFError

type_synonym dict = "(str \<times> str) list"

text \<open>
  The collaborators the program takes from its libraries and its environment:
  the credential (empty when it is not set), the remote endpoint (its answer to the
  \<open>n\<close>-th call of the process, for a request), PyPDF2 (the text of each page of a PDF, or
  nothing for a page without text; \<open>None\<close> when the file cannot be read as a PDF), the
  JSON codec of the cache table (\<open>None\<close> when \<open>json.load\<close> raises), the digest
  \<open>hashlib.sha256(s.encode("utf-8")).hexdigest()\<close>, and \<open>os.path.join\<close>.
\<close>

record env =
  api_key :: str
  completion :: "nat \<Rightarrow> message list \<Rightarrow> reply"
  pdf_pages :: "str \<Rightarrow> str option list option"
  json_load :: "str \<Rightarrow> dict option"
  json_dump :: "dict \<Rightarrow> str"
  sha256_hex :: "str \<Rightarrow> str"
  os_path_join :: "str \<Rightarrow> str \<Rightarrow> str"

text \<open>What the program prints, prompts for and does, in order.\<close>

datatype msg =
    LlmRetry nat
  | HtmlNotFound str
  | PdfNotFound str
  | ReadingHtml str
  | ReadingPdf str
  | PdfLength nat
  | HtmlLength nat
  | Sending
  | Generating
  | NoDoctype
  | FoundHtmlAt int
  | NotValidHtml
  | First500
  | PreviewHeader
  | Excerpt str
  | WarnShort nat
  | WarnName
  | WarnTitle
  | BackupCreated str
  | Synchronized
  | LinesChanged nat nat
  | CompaniesAdded
  | EducationUpdated
  | UpdateCancelled

datatype prompt = AskNewBackup | AskApply

datatype event =
    Print msg
  | Sleep nat
  | RemoteCall nat
  | FileRead str
  | FileWrite str
  | FileCopy str str
  | Input prompt

text \<open>
  The state: the text of each document file by path, the text of the cache file of the
  working directory (kept apart from the documents: the operator's files and the cache
  file are different files), the lines the operator will type, the number of remote
  calls made so far, and the trace of events.
\<close>

record world =
  files :: "str \<rightharpoonup> str"
  cache_file :: "str option"
  stdin :: "str list"
  ncalls :: nat
  trace :: "event list"

definition emit :: "event list \<Rightarrow> world \<Rightarrow> world" where
  "emit es w = w\<lparr>trace := trace w @ es\<rparr>"

definition path_exists :: "world \<Rightarrow> str \<Rightarrow> bool" where
  "path_exists w p = (files w p \<noteq> None)"

section \<open>Completion client with retry\<close>

text \<open>
  The loop of \<open>generate_response\<close>, with \<open>n\<close> attempts left and \<open>attempt\<close> the number
  of the next one. \<open>get_api_key()\<close> is evaluated inside the \<open>try\<close>, so a missing key is
  caught by the general handler, which leaves the loop.
\<close>

fun attempts :: "env \<Rightarrow> message list \<Rightarrow> nat \<Rightarrow> nat \<Rightarrow> failure option \<Rightarrow> world
    \<Rightarrow> (exn + str) \<times> world" where
  "attempts e msgs 0 attempt last_error w = (Inl (LLMFailed last_error), w)"
| "attempts e msgs (Suc n) attempt last_error w =
     (if api_key e = [] then (Inl (LLMFailed (Some KeyNotSet)), w)
      else
        let w1 = emit [RemoteCall (ncalls w)] (w\<lparr>ncalls := Suc (ncalls w)\<rparr>) in
        case completion e (ncalls w) msgs of
          Content t \<Rightarrow> (Inr t, w1)
        | ApiError x \<Rightarrow>
            attempts e msgs n (Suc attempt) (Some (ApiFailure x))
              (emit [Print (LlmRetry attempt), Sleep (3 * attempt)] w1)
        | OtherError x \<Rightarrow> (Inl (LLMFailed (Some (OtherFailure x))), w1))"

definition generate_response :: "env \<Rightarrow> message list \<Rightarrow> int \<Rightarrow> world \<Rightarrow> (exn + str) \<times> world" where
  "generate_response e msgs retries w = attempts e msgs (nat retries) 1 None w"

section \<open>Response cache\<close>

text \<open>
  \<open>json.dumps(messages, sort_keys=True, ensure_ascii=False)\<close> for a list of messages:
  the keys of each object in sorted order, the separators \<open>", "\<close> and \<open>": "\<close>, and
  in a string only the quote, the backslash and the control characters escaped.
\<close>

definition hex_digit :: "nat \<Rightarrow> nat" where
  "hex_digit d = (if d < 10 then 0x30 + d else 0x57 + d)"

definition json_escape :: "nat \<Rightarrow> str" where
  "json_escape c =
     (if c = 0x22 then [0x5C, 0x22]
      else if c = 0x5C then [0x5C, 0x5C]
      else if c = 0x0A then [0x5C, 0x6E]
      else if c = 0x0D then [0x5C, 0x72]
      else if c = 0x09 then [0x5C, 0x74]
      else if c = 0x08 then [0x5C, 0x62]
      else if c = 0x0C then [0x5C, 0x66]
      else if c < 0x20 then [0x5C, 0x75, 0x30, 0x30, hex_digit (c div 16), hex_digit (c mod 16)]
      else [c])"

definition json_string :: "str \<Rightarrow> str" where
  "json_string s = [0x22] @ concat (map json_escape s) @ [0x22]"

fun py_join :: "str \<Rightarrow> str list \<Rightarrow> str" where
  "py_join sep [] = []"
| "py_join sep [x] = x"
| "py_join sep (x # y # ys) = x @ sep @ py_join sep (y # ys)"

definition json_message :: "message \<Rightarrow> str" where
  \<open>json_message m =
     lit ''{"content": '' @ json_string (content m) @ lit '', "role": '' @ json_string (role m)
       @ lit ''}''\<close>

definition json_dumps_messages :: "message list \<Rightarrow> str" where
  "json_dumps_messages ms = lit ''['' @ py_join (lit '', '') (map json_message ms) @ lit '']''"

text \<open>
  \<open>_load_cache\<close>: the table of the cache file (the file \<open>CACHE_FILENAME\<close> of the
  working directory, the field \<open>cache_file\<close> of the state); the empty table when the
  file does not exist or \<open>json.load\<close> raises. \<open>_save_cache\<close> rewrites the whole file.
\<close>

definition load_cache :: "env \<Rightarrow> world \<Rightarrow> dict" where
  "load_cache e w =
     (case cache_file w of
        None \<Rightarrow> []
      | Some s \<Rightarrow> (case json_load e s of None \<Rightarrow> [] | Some d \<Rightarrow> d))"

definition save_cache :: "env \<Rightarrow> dict \<Rightarrow> world \<Rightarrow> world" where
  "save_cache e cache w = w\<lparr>cache_file := Some (json_dump e cache)\<rparr>"

definition cache_key :: "env \<Rightarrow> message list \<Rightarrow> str" where
  "cache_key e msgs = sha256_hex e (json_dumps_messages msgs)"

definition cached_generate :: "env \<Rightarrow> message list \<Rightarrow> world \<Rightarrow> (exn + str) \<times> world" where
  "cached_generate e msgs w =
     (let key = cache_key e msgs;
          cache = load_cache e w
      in case map_of cache key of
           Some r \<Rightarrow> (Inr r, w)
         | None \<Rightarrow>
             (case generate_response e msgs 3 w of
                (Inl x, w1) \<Rightarrow> (Inl x, w1)
              | (Inr resp, w1) \<Rightarrow> (Inr resp, save_cache e (AList.update key resp cache) w1)))"

section \<open>File utilities and PDF extraction\<close>

definition backup_file :: "str \<Rightarrow> world \<Rightarrow> (exn + str) \<times> world" where
  "backup_file path w =
     (let backup = path @ BACKUP_SUFFIX
      in case files w path of
           None \<Rightarrow> (Inl (FileNotFound path), w)
         | Some c \<Rightarrow> (Inr backup, emit [FileCopy path backup] (w\<lparr>files := (files w)(backup \<mapsto> c)\<rparr>)))"

definition read_file :: "str \<Rightarrow> world \<Rightarrow> (exn + str) \<times> world" where
  "read_file path w =
     (case files w path of
        None \<Rightarrow> (Inl (FileNotFound path), w)
      | Some c \<Rightarrow> (Inr c, emit [FileRead path] w))"

definition write_file :: "str \<Rightarrow> str \<Rightarrow> world \<Rightarrow> world" where
  "write_file path c w = emit [FileWrite path] (w\<lparr>files := (files w)(path \<mapsto> c)\<rparr>)"

definition page_text :: "str option \<Rightarrow> str" where
  "page_text p = (case p of None \<Rightarrow> [] | Some t \<Rightarrow> t)"

definition extract_pdf_text :: "env \<Rightarrow> str \<Rightarrow> world \<Rightarrow> (exn + str) \<times> world" where
  "extract_pdf_text e pdf_path w =
     (case files w pdf_path of
        None \<Rightarrow> (Inl (FileNotFound pdf_path), w)
      | Some c \<Rightarrow>
          (case pdf_pages e c of
             None \<Rightarrow> (Inl PdfUnreadable, emit [FileRead pdf_path] w)
           | Some pages \<Rightarrow>
               (Inr (py_strip (py_join [0x0A] (map page_text pages))),
                emit [FileRead pdf_path] w)))"

section \<open>Prompts\<close>

definition system_prompt :: str where
  \<open>system_prompt = concat [
     lit ''You are a Senior Staff Software Engineer tasked with synchronizing an HTML resume page with a PDF resume.\<newline>'',
     lit ''\<newline>'',
     lit ''CRITICAL RULES:\<newline>'',
     lit ''1. Preserve EXACT HTML structure, CSS classes, IDs, and formatting\<newline>'',
     lit ''2. Update text content ONLY - never modify HTML tags, attributes, or layout\<newline>'',
     lit ''3. Match sections semantically (Experience, Skills, Projects, Education, etc.)\<newline>'',
     lit ''4. For entities in both HTML and PDF: update HTML content to match PDF\<newline>'',
     lit ''5. For entities only in PDF: add them to appropriate sections\<newline>'',
     lit ''6. For entities only in HTML: keep them unchanged (DO NOT DELETE)\<newline>'',
     lit ''7. Maintain chronological order where applicable\<newline>'',
     lit ''8. Keep all original HTML comments and conditional code\<newline>'',
     lit ''9. Return the FULL, complete HTML file - not just changes\<newline>'',
     lit ''\<newline>'',
     lit ''PRIORITY SECTIONS TO SYNC:\<newline>'',
     lit ''1. Summary/Introduction (resume-intro section)\<newline>'',
     lit ''2. Work Experiences (work-section)\<newline>'',
     lit ''3. Technical Skills (skills-section > Technical)\<newline>'',
     lit ''4. Projects (project-section)\<newline>'',
     lit ''5. Certifications (education-section for awards)\<newline>'',
     lit ''6. Languages\<newline>'',
     lit ''7. Education\<newline>'',
     lit ''8. Interests\<newline>'',
     lit ''9. Professional Skills (skills-section > Professional)\<newline>'',
     lit ''\<newline>'',
     lit ''HTML STRUCTURE PRESERVATION:\<newline>'',
     lit ''- Keep all <div>, <section>, <ul>, <li> with same classes/IDs\<newline>'',
     lit ''- Maintain same number of columns and layout\<newline>'',
     lit ''- Preserve all social links, navigation, headers, footers\<newline>'',
     lit ''- Keep all script and style tags exactly as-is\<newline>'',
     lit ''- Maintain dark mode toggle and configuration panel'']\<close>

definition user_prompt_head :: str where
  \<open>user_prompt_head = concat [
     lit ''TASK: Synchronize the HTML resume content with the PDF resume content.\<newline>'',
     lit ''\<newline>'',
     lit ''PDF RESUME (SOURCE OF TRUTH):\<newline>'']\<close>

definition user_prompt_before_path :: str where
  \<open>user_prompt_before_path = concat [
     lit ''\<newline>'',
     lit ''CURRENT HTML FILE ('']\<close>

definition user_prompt_before_html :: str where
  \<open>user_prompt_before_html = concat [
     lit ''):\<newline>'']\<close>

definition user_prompt_tail :: str where
  \<open>user_prompt_tail = concat [
     lit ''\<newline>'',
     lit ''\<newline>'',
     lit ''\<newline>'',
     lit ''SPECIFIC UPDATES REQUIRED (based on manual analysis):\<newline>'',
     lit ''\<newline>'',
     lit ''1. SUMMARY/RESUME-INTRO:\<newline>'',
     lit ''   - Update to match PDF summary exactly\<newline>'',
     lit ''   - Should mention "5 years of experience" and backend-first systems\<newline>'',
     lit ''\<newline>'',
     lit ''2. WORK EXPERIENCES (Chronological order):\<newline>'',
     lit ''   a) Alogonox Technologies (August 2024 - Present)\<newline>'',
     lit ''      - Update title to "Software Engineer"\<newline>'',
     lit ''      - Add all bullet points from PDF\<newline>'',
     lit ''      \<newline>'',
     lit ''   b) Seewise.ai (September 2023 - April 2024)  \<newline>'',
     lit ''      - Update title to "Software Development Engineer"\<newline>'',
     lit ''      - Add all bullet points from PDF\<newline>'',
     lit ''      \<newline>'',
     lit ''   c) Codent Software Solutions (2021 - 2023)\<newline>'',
     lit ''      - Keep but update end date to 2023\<newline>'',
     lit ''      - Update bullets from original HTML\<newline>'',
     lit ''      \<newline>'',
     lit ''   d) Headrun (February 2020 - July 2020)\<newline>'',
     lit ''      - Update location to "Vijayawada, INDIA"\<newline>'',
     lit ''      - Use bullet points from PDF\<newline>'',
     lit ''\<newline>'',
     lit ''3. TECHNICAL SKILLS:\<newline>'',
     lit ''   - Reorganize to match PDF: Languages, Backend and APIs, Frontend, Databases, Cloud & DevOps, Testing & Quality, Architecture, Security & Auth\<newline>'',
     lit ''   - Include all skills from PDF: Python, JavaScript, SQL, Django, FastAPI, PostgreSQL, AWS, React.js, etc.\<newline>'',
     lit ''   - Keep HTML structure but update list items\<newline>'',
     lit ''\<newline>'',
     lit ''4. PROJECTS SECTION:\<newline>'',
     lit ''   - Replace with PDF projects: AI Resume Parser, Real-time Video Call Platforms, Django/React Apps\<newline>'',
     lit ''   - Add "Technical Expertise" subsection as in PDF\<newline>'',
     lit ''   - Remove old detailed project lists, keep only what's in PDF\<newline>'',
     lit ''\<newline>'',
     lit ''5. CERTIFICATIONS:\<newline>'',
     lit ''   - Update order to match PDF: Full Stack, Career Essentials, Programming in Python\<newline>'',
     lit ''   - Fix spelling of "Coursera"\<newline>'',
     lit ''\<newline>'',
     lit ''6. LANGUAGES:\<newline>'',
     lit ''   - Update order: Telugu, Hindi, English, Tamil, Urdu\<newline>'',
     lit ''   - Update proficiency levels to match PDF\<newline>'',
     lit ''\<newline>'',
     lit ''7. EDUCATION:\<newline>'',
     lit ''   - Add "PRIST University" as institution\<newline>'',
     lit ''\<newline>'',
     lit ''8. INTERESTS:\<newline>'',
     lit ''   - Update to: Tech Operations, Conducting Workshops, Basketball, Fitness, Travelling\<newline>'',
     lit ''\<newline>'',
     lit ''9. TAGLINE:\<newline>'',
     lit ''   - Update to: "Software Engineer (Backend - Python, Django, FastAPI, PostgreSQL, AWS)"\<newline>'',
     lit ''\<newline>'',
     lit ''10. PORTFOLIO URL:\<newline>'',
     lit ''    - Update to: "burhanmohammad.github.io"\<newline>'',
     lit ''\<newline>'',
     lit ''IMPORTANT: Preserve ALL HTML structure, classes, IDs, and formatting. Only update text content.\<newline>'',
     lit ''Return the COMPLETE updated HTML file.'']\<close>

definition build_resume_update_messages :: "str \<Rightarrow> str \<Rightarrow> str \<Rightarrow> message list" where
  "build_resume_update_messages html_path html_content pdf_text =
     [\<lparr>role = lit ''system'', content = system_prompt\<rparr>,
      \<lparr>role = lit ''user'',
       content = user_prompt_head @ pdf_text @ user_prompt_before_path @ html_path
         @ user_prompt_before_html @ html_content @ user_prompt_tail\<rparr>]"

section \<open>Update flow\<close>

text \<open>\<open>input(prompt)\<close>: the next line of the operator, or \<open>EOFError\<close> when there is none.\<close>

definition py_input :: "prompt \<Rightarrow> world \<Rightarrow> (exn + str) \<times> world" where
  "py_input p w =
     (case stdin w of
        [] \<Rightarrow> (Inl EOFError, emit [Input p] w)
      | l # ls \<Rightarrow> (Inr l, emit [Input p] (w\<lparr>stdin := ls\<rparr>)))"

text \<open>How \<open>update_resume_flow\<close> returns.\<close>

datatype flow_exit = HtmlMissing | PdfMissing | InvalidOutput | Cancelled | Applied

text \<open>
  Lines 242 to 259: the two paths, the two existence checks, and the two reads. The
  result is the path of the HTML file, its text and the text of the PDF.
\<close>

definition load_documents :: "env \<Rightarrow> str \<Rightarrow> str \<Rightarrow> world
    \<Rightarrow> (exn + flow_exit + str \<times> str \<times> str) \<times> world" where
  "load_documents e root html_rel_path w =
     (let html_path = os_path_join e root html_rel_path;
          pdf_path = os_path_join e root PDF_RELATIVE_PATH
      in if \<not> path_exists w html_path
         then (Inr (Inl HtmlMissing), emit [Print (HtmlNotFound html_path)] w)
         else if \<not> path_exists w pdf_path
         then (Inr (Inl PdfMissing), emit [Print (PdfNotFound pdf_path)] w)
         else
           (case read_file html_path (emit [Print (ReadingHtml html_path)] w) of
              (Inl x, w1) \<Rightarrow> (Inl x, w1)
            | (Inr html_content, w1) \<Rightarrow>
                (case extract_pdf_text e pdf_path (emit [Print (ReadingPdf pdf_path)] w1) of
                   (Inl x, w2) \<Rightarrow> (Inl x, w2)
                 | (Inr pdf_text, w2) \<Rightarrow>
                     (Inr (Inr (html_path, html_content, pdf_text)),
                      emit [Print (PdfLength (length pdf_text)),
                            Print (HtmlLength (length html_content))] w2))))"

text \<open>
  Lines 261 to 266: the request, the fixed wait, the cached completion, and \<open>strip\<close>.
  The result is the candidate output \<open>updated_html\<close>.
\<close>

definition fetch_candidate :: "env \<Rightarrow> str \<Rightarrow> str \<Rightarrow> str \<Rightarrow> world \<Rightarrow> (exn + str) \<times> world" where
  "fetch_candidate e html_path html_content pdf_text w =
     (let messages = build_resume_update_messages html_path html_content pdf_text
      in case cached_generate e messages
                (emit [Print Sending, Sleep MODEL_WAIT_SECONDS, Print Generating] w) of
           (Inl x, w1) \<Rightarrow> (Inl x, w1)
         | (Inr resp, w1) \<Rightarrow> (Inr (py_strip resp), w1))"

text \<open>
  Lines 269 to 280: the check of the output. \<open>None\<close> is the branch that returns from
  the flow; otherwise the result is the output to go on with.
\<close>

definition validate_output :: "str \<Rightarrow> world \<Rightarrow> str option \<times> world" where
  "validate_output updated_html w =
     (if \<not> py_in (lit ''<!DOCTYPE html>'') (py_lower (take 100 updated_html))
         \<and> \<not> py_in (lit ''<html'') (py_lower (take 200 updated_html))
      then
        let html_start = py_find (py_lower updated_html) (lit ''<html'')
        in if html_start > 0
           then (Some (drop (nat html_start) updated_html),
                 emit [Print NoDoctype, Print (FoundHtmlAt html_start)] w)
           else (None,
                 emit [Print NoDoctype, Print NotValidHtml, Print First500,
                       Print (Excerpt (take 500 updated_html))] w)
      else (Some updated_html, w))"

text \<open>Lines 282 to 294: the preview and the warnings, which stop nothing.\<close>

definition preview_and_warn :: "str \<Rightarrow> world \<Rightarrow> world" where
  "preview_and_warn updated_html w =
     emit ([Print PreviewHeader, Print (Excerpt (take 1000 updated_html))]
           @ (if length updated_html < 5000 then [Print (WarnShort (length updated_html))] else [])
           @ (if \<not> py_in (lit ''Mohammad Burhan'') updated_html then [Print WarnName] else [])
           @ (if \<not> py_in (lit ''Software Engineer'') updated_html then [Print WarnTitle] else []))
       w"

text \<open>Lines 297 to 321: the question about a new backup, the confirmation, the backup and the write.\<close>

definition affirmative :: "str \<Rightarrow> bool" where
  "affirmative answer = (py_lower (py_strip answer) = lit ''y'')"

definition report_applied :: "str \<Rightarrow> str \<Rightarrow> world \<Rightarrow> world" where
  "report_applied html_content updated_html w =
     emit ([Print Synchronized,
            Print (LinesChanged (count_list html_content 0x0A) (count_list updated_html 0x0A))]
           @ (if py_in (lit ''Alogonox'') updated_html \<and> py_in (lit ''Seewise.ai'') updated_html
              then [Print CompaniesAdded] else [])
           @ (if py_in (lit ''PRIST University'') updated_html then [Print EducationUpdated] else []))
       w"

definition confirm_and_apply :: "str \<Rightarrow> str \<Rightarrow> str \<Rightarrow> world \<Rightarrow> (exn + flow_exit) \<times> world" where
  "confirm_and_apply html_path html_content updated_html w =
     (case (if path_exists w (html_path @ BACKUP_SUFFIX)
            then (case py_input AskNewBackup w of
                    (Inl x, w1) \<Rightarrow> (Inl x, w1)
                  | (Inr answer, w1) \<Rightarrow> (Inr (affirmative answer), w1))
            else (Inr True, w)) of
        (Inl x, w1) \<Rightarrow> (Inl x, w1)
      | (Inr backup_needed, w1) \<Rightarrow>
          (case py_input AskApply w1 of
             (Inl x, w2) \<Rightarrow> (Inl x, w2)
           | (Inr answer, w2) \<Rightarrow>
               if affirmative answer
               then
                 (case (if backup_needed
                        then (case backup_file html_path w2 of
                                (Inl x, w3) \<Rightarrow> (Inl x, w3)
                              | (Inr backup, w3) \<Rightarrow> (Inr (), emit [Print (BackupCreated backup)] w3))
                        else (Inr (), w2)) of
                    (Inl x, w3) \<Rightarrow> (Inl x, w3)
                  | (Inr u, w3) \<Rightarrow>
                      (Inr Applied,
                       report_applied html_content updated_html
                         (write_file html_path updated_html w3)))
               else (Inr Cancelled, emit [Print UpdateCancelled] w2)))"

definition update_resume_flow :: "env \<Rightarrow> str \<Rightarrow> str \<Rightarrow> world \<Rightarrow> (exn + flow_exit) \<times> world" where
  "update_resume_flow e root html_rel_path w =
     (case load_documents e root html_rel_path w of
        (Inl x, w1) \<Rightarrow> (Inl x, w1)
      | (Inr (Inl ex), w1) \<Rightarrow> (Inr ex, w1)
      | (Inr (Inr (html_path, html_content, pdf_text)), w1) \<Rightarrow>
          (case fetch_candidate e html_path html_content pdf_text w1 of
             (Inl x, w2) \<Rightarrow> (Inl x, w2)
           | (Inr updated_html, w2) \<Rightarrow>
               (case validate_output updated_html w2 of
                  (None, w3) \<Rightarrow> (Inr InvalidOutput, w3)
                | (Some html, w3) \<Rightarrow>
                    confirm_and_apply html_path html_content html (preview_and_warn html w3))))"

section \<open>A concrete environment\<close>

text \<open>
  The theorems below hold for every environment. To run them on concrete inputs the
  collaborators are instantiated: POSIX \<open>os.path.join\<close> for two components, a PDF
  reader for which a file is one page holding its own text, a length-prefixed codec for
  the cache table in the place of JSON, and a stand-in for the digest.
\<close>

definition posix_join :: "str \<Rightarrow> str \<Rightarrow> str" where
  "posix_join a b =
     (if startswith b [0x2F] then b
      else if a = [] \<or> last a = 0x2F then a @ b
      else a @ [0x2F] @ b)"

fun demo_dump :: "dict \<Rightarrow> str" where
  "demo_dump [] = []"
| "demo_dump ((k, v) # d) = length k # k @ length v # v @ demo_dump d"

function demo_parse :: "str \<Rightarrow> dict option" where
  "demo_parse [] = Some []"
| "demo_parse (n # s) =
     (if length s \<le> n then None
      else
        let m = s ! n; t = drop (Suc n) s
        in if length t < m then None
           else (case demo_parse (drop m t) of
                   None \<Rightarrow> None
                 | Some d \<Rightarrow> Some ((take n s, take m t) # d)))"
  by pat_completeness auto
termination
  by (relation "measure length") auto

definition demo_load :: "str \<Rightarrow> dict option" where
  "demo_load s =
     (case demo_parse s of
        None \<Rightarrow> None
      | Some d \<Rightarrow> if distinct (map fst d) then Some d else None)"

definition demo_digest :: "str \<Rightarrow> str" where
  "demo_digest s = map (\<lambda>c. hex_digit (c mod 16)) (take 64 s)"

definition demo_env :: "(nat \<Rightarrow> reply) \<Rightarrow> env" where
  "demo_env script =
     \<lparr>api_key = lit ''sk-demo'',
      completion = (\<lambda>n msgs. script n),
      pdf_pages = (\<lambda>c. Some [Some c]),
      json_load = demo_load,
      json_dump = demo_dump,
      sha256_hex = demo_digest,
      os_path_join = posix_join\<rparr>"

definition demo_root :: str where
  "demo_root = lit ''site''"

definition demo_rel :: str where
  "demo_rel = lit ''resume.html''"

definition demo_html_old :: str where
  "demo_html_old = lit ''<html>old</html>''"

definition demo_pdf_text :: str where
  "demo_pdf_text = lit ''Mohammad Burhan''"

definition answer_y :: str where
  "answer_y = lit ''y''"

definition demo_pdf_path :: str where
  "demo_pdf_path = lit ''site/'' @ PDF_RELATIVE_PATH"

definition demo_world :: "str list \<Rightarrow> world" where
  "demo_world answers =
     \<lparr>files = [lit ''site/resume.html'' \<mapsto> demo_html_old, demo_pdf_path \<mapsto> demo_pdf_text],
      cache_file = None,
      stdin = answers,
      ncalls = 0,
      trace = []\<rparr>"

section \<open>Notions used by the properties\<close>

text \<open>The events that change a document file: the write of the output and the backup copy.\<close>

definition is_write :: "event \<Rightarrow> bool" where
  "is_write ev = (case ev of FileWrite p \<Rightarrow> True | FileCopy p q \<Rightarrow> True | _ \<Rightarrow> False)"

text \<open>
  What is asked of the JSON codec of the cache table: \<open>json.load\<close> returns a dictionary
  (no key twice), and a dictionary that \<open>json.dump\<close> wrote is read back unchanged.
\<close>

definition json_codec_ok :: "env \<Rightarrow> bool" where
  "json_codec_ok e \<longleftrightarrow>
     (\<forall>s d. json_load e s = Some d \<longrightarrow> distinct (map fst d))
     \<and> (\<forall>d. distinct (map fst d) \<longrightarrow> json_load e (json_dump e d) = Some d)"

text \<open>The concrete run: reading the two documents of \<open>demo_world\<close>.\<close>

definition demo_html_path :: str where
  "demo_html_path = lit ''site/resume.html''"

definition demo_loaded :: "str list \<Rightarrow> world" where
  "demo_loaded answers =
     (demo_world answers)\<lparr>trace :=
        [Print (ReadingHtml demo_html_path), FileRead demo_html_path,
         Print (ReadingPdf demo_pdf_path), FileRead demo_pdf_path,
         Print (PdfLength 15), Print (HtmlLength 16)]\<rparr>"

definition demo_messages :: "message list" where
  "demo_messages =
     build_resume_update_messages demo_html_path demo_html_old demo_pdf_text"

text \<open>The world after a first completion for \<open>demo_messages\<close> answered \<open>t\<close>.\<close>

definition demo_fetched :: "(nat \<Rightarrow> reply) \<Rightarrow> str \<Rightarrow> str list \<Rightarrow> world" where
  "demo_fetched script t answers =
     (demo_loaded answers)
       \<lparr>cache_file := Some (demo_dump [(cache_key (demo_env script) demo_messages, t)]),
        ncalls := 1,
        trace := trace (demo_loaded answers)
                 @ [Print Sending, Sleep 15, Print Generating, RemoteCall 0]\<rparr>"

text \<open>Answers of the remote endpoint used in the concrete runs.\<close>

definition reply_refusal :: str where
  "reply_refusal = lit ''  Sorry, I cannot help with that.  ''"

definition reply_page :: str where
  "reply_page = lit ''<html><body>Mohammad Burhan, Software Engineer</body></html>''"

definition reply_doctype_only :: str where
  "reply_doctype_only = lit ''<!DOCTYPE html><body>Mohammad Burhan</body>''"

definition reply_dotted_capital :: str where
  "reply_dotted_capital =
     [0x130] @ lit ''xxxxxxxxxxxxxxxxxxxxxxxxxxxxxxxxxxxxxxxxxxxxxxxxxxxxxxxxxxxxxxxxxxxxxxxxxxxxxxxxxxxxxxxxxxxxxxxxxxxxxxxxxxxxxxxxxxxxxxxxxxxxxxxxxxxxxxxxxxxxxxxxxxxxxxxxxxxxxxxxxxxxxxxxxxxxxxxxxxxxxxxxxxxxxxxxxxxxxxx''
     @ lit ''<html></html>''"

definition reply_five_dotted_capitals :: str where
  "reply_five_dotted_capitals =
     lit ''  '' @ [0x130, 0x130, 0x130, 0x130, 0x130]
     @ lit ''xxxxxxxxxxxxxxxxxxxxxxxxxxxxxxxxxxxxxxxxxxxxxxxxxxxxxxxxxxxxxxxxxxxxxxxxxxxxxxxxxxxxxxxxxxxxxxxxxxxxxxxxxxxxxxxxxxxxxxxxxxxxxxxxxxxxxxxxxxxxxxxxxxxxxxxxxxxxxxxxxxxxxxxxxxxxxxxxxxxxxxxxxxxxxxxxxxxxxxxx''
     @ lit ''<html >'' @ [0x0A]"

definition candidate_five_dotted_capitals :: str where
  "candidate_five_dotted_capitals =
     [0x130, 0x130, 0x130, 0x130, 0x130]
     @ lit ''xxxxxxxxxxxxxxxxxxxxxxxxxxxxxxxxxxxxxxxxxxxxxxxxxxxxxxxxxxxxxxxxxxxxxxxxxxxxxxxxxxxxxxxxxxxxxxxxxxxxxxxxxxxxxxxxxxxxxxxxxxxxxxxxxxxxxxxxxxxxxxxxxxxxxxxxxxxxxxxxxxxxxxxxxxxxxxxxxxxxxxxxxxxxxxxxxxxxxxxx''
     @ lit ''<html >''"

lemmas flow_defs =
  load_documents_def fetch_candidate_def preview_and_warn_def confirm_and_apply_def
  report_applied_def cached_generate_def load_cache_def save_cache_def generate_response_def
  read_file_def write_file_def backup_file_def extract_pdf_text_def page_text_def py_input_def
  path_exists_def emit_def Let_def py_in_def py_find_def
  MODEL_WAIT_SECONDS_def PDF_RELATIVE_PATH_def BACKUP_SUFFIX_def

lemmas text_defs =
  py_strip_def is_space_def py_lower_def lower_cp_def py_in_def py_find_def

lemmas demo_defs =
  demo_root_def demo_rel_def demo_html_old_def demo_pdf_text_def answer_y_def
  demo_env_def demo_world_def demo_loaded_def demo_fetched_def demo_messages_def
  demo_html_path_def demo_pdf_path_def posix_join_def

section \<open>Properties\<close>

subsection \<open>Auxiliary facts\<close>

lemma startswith_iff: "startswith s sub \<longleftrightarrow> (\<exists>b. s = sub @ b)"
  by (induction s sub rule: startswith.induct) auto

lemma find_from_none: "find_from sub s i = - 1 \<longleftrightarrow> \<not> (\<exists>a b. s = a @ sub @ b)"
proof (induction sub s i rule: find_from.induct)
  case (1 sub i)
  then show ?case by auto
next
  case (2 sub x xs i)
  show ?case
  proof (cases "startswith (x # xs) sub")
    case True
    then obtain b where "x # xs = sub @ b" by (auto simp: startswith_iff)
    then have "x # xs = [] @ sub @ b" by simp
    then have "\<exists>a b. x # xs = a @ sub @ b" by blast
    with True show ?thesis by simp
  next
    case False
    have "(\<exists>a b. x # xs = a @ sub @ b) \<longleftrightarrow> (\<exists>a b. xs = a @ sub @ b)"
    proof
      assume "\<exists>a b. x # xs = a @ sub @ b"
      then obtain a b where ab: "x # xs = a @ sub @ b" by blast
      show "\<exists>a b. xs = a @ sub @ b"
      proof (cases a)
        case Nil
        with ab False show ?thesis by (auto simp: startswith_iff)
      next
        case (Cons y ys)
        with ab show ?thesis by auto
      qed
    next
      assume "\<exists>a b. xs = a @ sub @ b"
      then obtain a b where "xs = a @ sub @ b" by blast
      then have "x # xs = (x # a) @ sub @ b" by simp
      then show "\<exists>a b. x # xs = a @ sub @ b" by blast
    qed
    with False 2 show ?thesis by simp
  qed
qed

lemma py_in_iff: "py_in sub s \<longleftrightarrow> (\<exists>a b. s = a @ sub @ b)"
  by (simp add: py_in_def py_find_def find_from_none)

lemma py_lower_append: "py_lower (a @ b) = py_lower a @ py_lower b"
  by (simp add: py_lower_def)

lemma py_in_lower_take:
  assumes "py_in sub (py_lower (take n s))"
  shows "py_in sub (py_lower s)"
proof -
  from assms obtain a b where "py_lower (take n s) = a @ sub @ b"
    by (auto simp: py_in_iff)
  moreover have "py_lower s = py_lower (take n s) @ py_lower (drop n s)"
    by (metis append_take_drop_id py_lower_append)
  ultimately have "py_lower s = a @ sub @ (b @ py_lower (drop n s))"
    by simp
  then show ?thesis
    unfolding py_in_iff by blast
qed

lemma lower_no_capital_D: "0x44 \<notin> set (py_lower s)"
  by (induction s) (auto simp: py_lower_def lower_cp_def)

lemma doctype_never_found: "\<not> py_in (lit ''<!DOCTYPE html>'') (py_lower s)"
proof
  assume "py_in (lit ''<!DOCTYPE html>'') (py_lower s)"
  then obtain a b where "py_lower s = a @ lit ''<!DOCTYPE html>'' @ b"
    by (auto simp: py_in_iff)
  then have "0x44 \<in> set (py_lower s)"
    by simp
  then show False
    by (simp add: lower_no_capital_D)
qed

lemma attempts_frame:
  "attempts e msgs n a l w = (r, w') \<Longrightarrow>
     files w' = files w \<and> cache_file w' = cache_file w \<and> stdin w' = stdin w
     \<and> filter is_write (trace w') = filter is_write (trace w)"
proof (induction n arbitrary: a l w)
  case 0
  then show ?case by auto
next
  case (Suc n)
  show ?case
  proof (cases "api_key e = []")
    case True
    with Suc.prems show ?thesis by auto
  next
    case False
    show ?thesis
    proof (cases "completion e (ncalls w) msgs")
      case (Content t)
      with False Suc.prems show ?thesis by (auto simp: emit_def is_write_def)
    next
      case (ApiError x)
      with False Suc.prems have "attempts e msgs n (Suc a) (Some (ApiFailure x))
          (emit [Print (LlmRetry a), Sleep (3 * a)] (emit [RemoteCall (ncalls w)] (w\<lparr>ncalls := Suc (ncalls w)\<rparr>))) = (r, w')"
        by simp
      from Suc.IH [OF this] show ?thesis by (simp add: emit_def is_write_def)
    next
      case (OtherError x)
      with False Suc.prems show ?thesis by (auto simp: emit_def is_write_def)
    qed
  qed
qed

lemma cached_generate_frame:
  assumes "cached_generate e msgs w = (r, w')"
  shows "files w' = files w \<and> stdin w' = stdin w
         \<and> filter is_write (trace w') = filter is_write (trace w)"
proof (cases "map_of (load_cache e w) (cache_key e msgs)")
  case (Some a)
  with assms show ?thesis by (simp add: cached_generate_def)
next
  case None
  obtain r1 w1 where g: "generate_response e msgs 3 w = (r1, w1)" by force
  then have f: "files w1 = files w \<and> cache_file w1 = cache_file w \<and> stdin w1 = stdin w
     \<and> filter is_write (trace w1) = filter is_write (trace w)"
    unfolding generate_response_def by (rule attempts_frame)
  from assms None g f show ?thesis
    by (cases r1) (auto simp: cached_generate_def save_cache_def)
qed

lemma load_documents_frame:
  assumes "load_documents e root rel w = (r, w')"
  shows "files w' = files w \<and> stdin w' = stdin w \<and> cache_file w' = cache_file w
         \<and> ncalls w' = ncalls w \<and> filter is_write (trace w') = filter is_write (trace w)"
  using assms
  by (auto simp: load_documents_def Let_def read_file_def extract_pdf_text_def emit_def
        is_write_def path_exists_def split: if_splits option.splits)

lemma fetch_candidate_frame:
  assumes "fetch_candidate e hp hc pt w = (r, w')"
  shows "files w' = files w \<and> stdin w' = stdin w
         \<and> filter is_write (trace w') = filter is_write (trace w)"
proof -
  obtain r1 w1 where c: "cached_generate e (build_resume_update_messages hp hc pt)
      (emit [Print Sending, Sleep MODEL_WAIT_SECONDS, Print Generating] w) = (r1, w1)"
    by force
  from cached_generate_frame [OF c] have "files w1 = files w \<and> stdin w1 = stdin w
         \<and> filter is_write (trace w1) = filter is_write (trace w)"
    by (simp add: emit_def is_write_def)
  with assms c show ?thesis
    by (cases r1) (auto simp: fetch_candidate_def)
qed

lemma validate_output_frame:
  assumes "validate_output u w = (r, w')"
  shows "files w' = files w \<and> stdin w' = stdin w
         \<and> filter is_write (trace w') = filter is_write (trace w)"
  using assms
  by (auto simp: validate_output_def Let_def emit_def is_write_def split: if_splits)

lemma preview_and_warn_frame:
  "files (preview_and_warn u w) = files w \<and> stdin (preview_and_warn u w) = stdin w
   \<and> filter is_write (trace (preview_and_warn u w)) = filter is_write (trace w)"
  by (simp add: preview_and_warn_def emit_def is_write_def)

lemma confirm_and_apply_decline:
  assumes "stdin w = (if path_exists w (html_path @ BACKUP_SUFFIX) then [b] else []) @ answer # rest"
    and "\<not> affirmative answer"
  shows "fst (confirm_and_apply html_path html_content html w) = Inr Cancelled
         \<and> files (snd (confirm_and_apply html_path html_content html w)) = files w
         \<and> filter is_write (trace (snd (confirm_and_apply html_path html_content html w)))
             = filter is_write (trace w)"
  using assms
  by (cases "path_exists w (html_path @ BACKUP_SUFFIX)")
     (simp_all add: confirm_and_apply_def py_input_def emit_def is_write_def)

lemma attempts_cache_file:
  "attempts e msgs n a l (w\<lparr>cache_file := c\<rparr>) =
     (fst (attempts e msgs n a l w), (snd (attempts e msgs n a l w))\<lparr>cache_file := c\<rparr>)"
proof (induction n arbitrary: a l w)
  case 0
  show ?case by simp
next
  case (Suc n)
  show ?case
  proof (cases "completion e (ncalls w) msgs")
    case (Content t)
    then show ?thesis by (simp add: emit_def)
  next
    case (ApiError x)
    have "emit [Print (LlmRetry a), Sleep (3 * a)]
            (emit [RemoteCall (ncalls w)] (w\<lparr>cache_file := c, ncalls := Suc (ncalls w)\<rparr>))
          = (emit [Print (LlmRetry a), Sleep (3 * a)]
            (emit [RemoteCall (ncalls w)] (w\<lparr>ncalls := Suc (ncalls w)\<rparr>)))\<lparr>cache_file := c\<rparr>"
      by (simp add: emit_def)
    with ApiError Suc.IH show ?thesis by simp
  next
    case (OtherError x)
    then show ?thesis by (simp add: emit_def)
  qed
qed

lemma attempts_cache_file_kept:
  "cache_file (snd (attempts e msgs n a l w)) = cache_file w"
  using attempts_frame [of e msgs n a l w] by (cases "attempts e msgs n a l w") simp

lemma load_cache_distinct: "json_codec_ok e \<Longrightarrow> distinct (map fst (load_cache e w))"
  by (auto simp: json_codec_ok_def load_cache_def split: option.splits)

lemma load_cache_cong: "cache_file v = cache_file w \<Longrightarrow> load_cache e v = load_cache e w"
  by (simp add: load_cache_def)

lemma cached_generate_again:
  assumes ok: "json_codec_ok e"
    and first: "cached_generate e msgs w = (Inr r, w1)"
    and kept: "cache_file v = cache_file w1"
  shows "cached_generate e msgs v = (Inr r, v)"
proof (cases "map_of (load_cache e w) (cache_key e msgs)")
  case (Some a)
  with first have "a = r" "w1 = w"
    by (simp_all add: cached_generate_def)
  with Some kept have "map_of (load_cache e v) (cache_key e msgs) = Some r"
    by (simp add: load_cache_cong [of v w])
  then show ?thesis
    by (simp add: cached_generate_def)
next
  case None
  let ?d = "AList.update (cache_key e msgs) r (load_cache e w)"
  from first None have "cache_file w1 = Some (json_dump e ?d)"
    by (auto simp: cached_generate_def save_cache_def split: prod.splits sum.splits)
  moreover have "json_load e (json_dump e ?d) = Some ?d"
    using ok load_cache_distinct [OF ok, of w]
    by (simp add: json_codec_ok_def distinct_update)
  ultimately have "load_cache e v = ?d"
    using kept by (simp add: load_cache_def)
  then have "map_of (load_cache e v) (cache_key e msgs) = Some r"
    by (simp add: update_conv')
  then show ?thesis
    by (simp add: cached_generate_def)
qed

subsection \<open>Text without U+0130\<close>

text \<open>
  Where the output holds no U+0130, lower-casing keeps every offset: the cut is at the
  first \<open><html\<close> in any letter case, and what goes on has no whitespace at its ends.
\<close>

lemma py_lower_drop:
  "0x130 \<notin> set u \<Longrightarrow> py_lower (drop k u) = drop k (py_lower u)"
proof (induction u arbitrary: k)
  case Nil
  show ?case by (simp add: py_lower_def)
next
  case (Cons c u)
  show ?case
  proof (cases k)
    case 0
    then show ?thesis by simp
  next
    case (Suc j)
    from Cons.prems have "c \<noteq> 0x130" "0x130 \<notin> set u" by auto
    then have "py_lower (c # u) = hd (lower_cp c) # py_lower u"
      by (simp add: py_lower_def lower_cp_def)
    with Suc Cons.IH [OF \<open>0x130 \<notin> set u\<close>, of j] show ?thesis by simp
  qed
qed

lemma find_from_found:
  "find_from sub s i \<noteq> - 1 \<Longrightarrow>
     \<exists>k. find_from sub s i = int (i + k) \<and> k \<le> length s \<and> startswith (drop k s) sub
       \<and> (\<forall>j<k. \<not> startswith (drop j s) sub)"
proof (induction sub s i rule: find_from.induct)
  case (1 sub i)
  then have "sub = []" by (auto split: if_splits)
  then show ?case by simp
next
  case (2 sub x xs i)
  show ?case
  proof (cases "startswith (x # xs) sub")
    case True
    then have "find_from sub (x # xs) i = int (i + 0) \<and> 0 \<le> length (x # xs)
       \<and> startswith (drop 0 (x # xs)) sub \<and> (\<forall>j<0. \<not> startswith (drop j (x # xs)) sub)"
      by simp
    then show ?thesis by blast
  next
    case False
    with "2.prems" have "find_from sub xs (Suc i) \<noteq> - 1" by simp
    from "2.IH" [OF False this] obtain k where
      k: "find_from sub xs (Suc i) = int (Suc i + k)" "k \<le> length xs"
         "startswith (drop k xs) sub" "\<forall>j<k. \<not> startswith (drop j xs) sub"
      by blast
    have "\<forall>j<Suc k. \<not> startswith (drop j (x # xs)) sub"
    proof (intro allI impI)
      fix j assume "j < Suc k"
      show "\<not> startswith (drop j (x # xs)) sub"
      proof (cases j)
        case 0
        with False show ?thesis by simp
      next
        case (Suc j')
        with \<open>j < Suc k\<close> k(4) show ?thesis by simp
      qed
    qed
    with False k have "find_from sub (x # xs) i = int (i + Suc k) \<and> Suc k \<le> length (x # xs)
       \<and> startswith (drop (Suc k) (x # xs)) sub \<and> (\<forall>j<Suc k. \<not> startswith (drop j (x # xs)) sub)"
      by simp
    then show ?thesis by blast
  qed
qed

lemma validate_output_without_dotted_capital:
  assumes plain: "0x130 \<notin> set u"
    and v: "validate_output u w = (Some h, w')"
  shows "h = u \<or>
         (\<exists>k>0. h = drop k u \<and> startswith (py_lower (drop k u)) (lit ''<html'')
            \<and> (\<forall>j<k. \<not> startswith (py_lower (drop j u)) (lit ''<html'')))"
proof (cases "\<not> py_in (lit ''<!DOCTYPE html>'') (py_lower (take 100 u))
         \<and> \<not> py_in (lit ''<html'') (py_lower (take 200 u))")
  case False
  with v show ?thesis by (auto simp: validate_output_def)
next
  case True
  with v have pos: "py_find (py_lower u) (lit ''<html'') > 0"
    and h: "h = drop (nat (py_find (py_lower u) (lit ''<html''))) u"
    by (auto simp: validate_output_def Let_def split: if_splits)
  from pos have "find_from (lit ''<html'') (py_lower u) 0 \<noteq> - 1"
    by (simp add: py_find_def)
  from find_from_found [OF this] obtain k where
    k: "find_from (lit ''<html'') (py_lower u) 0 = int k"
       "startswith (drop k (py_lower u)) (lit ''<html'')"
       "\<forall>j<k. \<not> startswith (drop j (py_lower u)) (lit ''<html'')"
    by auto
  from k(1) pos h have "k > 0" "h = drop k u"
    by (simp_all add: py_find_def)
  with k(2,3) plain have "0 < k \<and> h = drop k u \<and> startswith (py_lower (drop k u)) (lit ''<html'')
      \<and> (\<forall>j<k. \<not> startswith (py_lower (drop j u)) (lit ''<html''))"
    by (simp add: py_lower_drop)
  then show ?thesis
    by blast
qed

lemma dropWhile_hd: "dropWhile P xs \<noteq> [] \<Longrightarrow> \<not> P (hd (dropWhile P xs))"
  by (metis hd_dropWhile)

lemma py_strip_ends:
  "py_strip s \<noteq> [] \<Longrightarrow> \<not> is_space (hd (py_strip s)) \<and> \<not> is_space (last (py_strip s))"
proof -
  assume ne: "py_strip s \<noteq> []"
  let ?a = "dropWhile is_space s"
  let ?b = "dropWhile is_space (rev ?a)"
  from ne have b: "?b \<noteq> []" by (simp add: py_strip_def)
  then have l: "\<not> is_space (hd ?b)" by (rule dropWhile_hd)
  have "last (py_strip s) = hd ?b"
    using b by (simp add: py_strip_def last_rev)
  moreover have "\<not> is_space (hd (py_strip s))"
  proof -
    have a: "?a \<noteq> []"
    proof
      assume e: "?a = []"
      show False using b unfolding e by simp
    qed
    then have ha: "\<not> is_space (hd ?a)" by (rule dropWhile_hd)
    obtain pre where "rev ?a = pre @ ?b" 
      by (metis takeWhile_dropWhile_id)
    then have "?a = rev ?b @ rev pre" by (metis rev_append rev_rev_ident)
    moreover from b have "rev ?b \<noteq> []" by (simp only: rev_is_Nil_conv not_False_eq_True)
    ultimately have "hd ?a = hd (rev ?b)" by (metis hd_append2)
    with ha show ?thesis by (simp add: py_strip_def)
  qed
  ultimately show ?thesis using l by simp
qed

lemma validate_output_plain_ends:
  assumes plain: "0x130 \<notin> set (py_strip resp)"
    and v: "validate_output (py_strip resp) w = (Some h, w')"
  shows "h \<noteq> [] \<and> \<not> is_space (hd h) \<and> \<not> is_space (last h)"
proof -
  let ?u = "py_strip resp"
  have ne: "?u \<noteq> []"
  proof
    assume "?u = []"
    with v show False
      by (simp add: validate_output_def py_lower_def py_in_def py_find_def)
  qed
  from py_strip_ends [OF ne] have ends: "\<not> is_space (hd ?u)" "\<not> is_space (last ?u)"
    by simp_all
  from validate_output_without_dotted_capital [OF plain v] show ?thesis
  proof
    assume "h = ?u"
    with ne ends show ?thesis by simp
  next
    assume "\<exists>k>0. h = drop k ?u \<and> startswith (py_lower (drop k ?u)) (lit ''<html'')
        \<and> (\<forall>j<k. \<not> startswith (py_lower (drop j ?u)) (lit ''<html''))"
    then obtain k where h: "h = drop k ?u"
      and st: "startswith (py_lower (drop k ?u)) (lit ''<html'')"
      by blast
    from st have hne: "drop k ?u \<noteq> []"
      by (auto simp: py_lower_def)
    then obtain c cs where ccs: "drop k ?u = c # cs"
      by (cases "drop k ?u") auto
    have "c \<in> set ?u"
      by (metis ccs in_set_dropD list.set_intros(1))
    with plain have "c \<noteq> 0x130" by auto
    with st ccs have "c = 0x3C"
      by (auto simp: py_lower_def lower_cp_def split: if_splits)
    then have "\<not> is_space c"
      by (simp add: is_space_def)
    moreover from hne have "last (drop k ?u) = last ?u"
      by simp
    ultimately show ?thesis
      using h hne ccs ends by simp
  qed
qed

subsection \<open>The concrete run\<close>

lemma demo_parse_dump: "demo_parse (demo_dump d) = Some d"
proof (induction d)
  case Nil
  show ?case by simp
next
  case (Cons p d)
  obtain k v where p: "p = (k, v)" by (cases p)
  have "(k @ length v # v @ demo_dump d) ! length k = length v"
    by simp
  with Cons p show ?case
    by (simp add: Let_def)
qed

lemma demo_codec_ok: "json_codec_ok (demo_env script)"
  by (auto simp: json_codec_ok_def demo_env_def demo_load_def demo_parse_dump
      split: option.splits if_splits)

lemma cached_generate_miss:
  assumes "cache_file w = None"
    and "api_key e \<noteq> []"
    and "completion e (ncalls w) msgs = Content t"
  shows "cached_generate e msgs w =
           (Inr t,
            w\<lparr>cache_file := Some (json_dump e [(cache_key e msgs, t)]),
               ncalls := Suc (ncalls w),
               trace := trace w @ [RemoteCall (ncalls w)]\<rparr>)"
  using assms
  by (simp add: cached_generate_def load_cache_def save_cache_def generate_response_def
      emit_def numeral_3_eq_3)

lemma fetch_candidate_miss:
  assumes "cache_file w = None"
    and "api_key e \<noteq> []"
    and "completion e (ncalls w) (build_resume_update_messages hp hc pt) = Content t"
  shows "fetch_candidate e hp hc pt w =
           (Inr (py_strip t),
            w\<lparr>cache_file :=
                  Some (json_dump e [(cache_key e (build_resume_update_messages hp hc pt), t)]),
               ncalls := Suc (ncalls w),
               trace := trace w @ [Print Sending, Sleep MODEL_WAIT_SECONDS, Print Generating,
                                   RemoteCall (ncalls w)]\<rparr>)"
  using assms
  by (simp add: fetch_candidate_def cached_generate_def load_cache_def save_cache_def
      generate_response_def emit_def numeral_3_eq_3)

lemma demo_load_documents:
  "load_documents (demo_env script) demo_root demo_rel (demo_world answers) =
     (Inr (Inr (demo_html_path, demo_html_old, demo_pdf_text)),
      demo_loaded answers)"
  by (simp add: flow_defs text_defs demo_defs)

lemma demo_fetch_candidate:
  "fetch_candidate (demo_env (\<lambda>n. Content t)) demo_html_path demo_html_old
     demo_pdf_text (demo_loaded answers) =
     (Inr (py_strip t), demo_fetched (\<lambda>n. Content t) t answers)"
proof -
  have "cache_file (demo_loaded answers) = None"
    by (simp add: demo_loaded_def demo_world_def)
  moreover have "api_key (demo_env (\<lambda>n. Content t)) \<noteq> []"
    by (simp add: demo_env_def)
  moreover have "completion (demo_env (\<lambda>n. Content t)) (ncalls (demo_loaded answers))
      (build_resume_update_messages demo_html_path demo_html_old demo_pdf_text)
      = Content t"
    by (simp add: demo_env_def)
  ultimately have "fetch_candidate (demo_env (\<lambda>n. Content t)) demo_html_path demo_html_old
      demo_pdf_text (demo_loaded answers) =
      (Inr (py_strip t),
       (demo_loaded answers)
         \<lparr>cache_file :=
            Some (json_dump (demo_env (\<lambda>n. Content t))
                    [(cache_key (demo_env (\<lambda>n. Content t))
                        (build_resume_update_messages demo_html_path demo_html_old demo_pdf_text), t)]),
          ncalls := Suc (ncalls (demo_loaded answers)),
          trace := trace (demo_loaded answers)
                   @ [Print Sending, Sleep MODEL_WAIT_SECONDS, Print Generating,
                      RemoteCall (ncalls (demo_loaded answers))]\<rparr>)"
    by (rule fetch_candidate_miss)
  then show ?thesis
    by (simp add: demo_fetched_def demo_loaded_def demo_world_def demo_env_def
        demo_messages_def MODEL_WAIT_SECONDS_def)
qed

lemma demo_fetched_fields:
  "files (demo_fetched script t answers) = files (demo_world answers)"
  "stdin (demo_fetched script t answers) = answers"
  "ncalls (demo_fetched script t answers) = 1"
  by (simp_all add: demo_fetched_def demo_loaded_def demo_world_def)

lemma not_affirmative_empty: "\<not> affirmative []"
  by (simp add: affirmative_def text_defs)

lemma strip_refusal: "py_strip reply_refusal = lit ''Sorry, I cannot help with that.''"
  by (simp add: reply_refusal_def text_defs)

lemma strip_page: "py_strip reply_page = reply_page"
  by (simp add: reply_page_def text_defs)

lemma validate_page: "validate_output reply_page w = (Some reply_page, w)"
  by (simp add: validate_output_def reply_page_def text_defs)

lemma strip_doctype_only: "py_strip reply_doctype_only = reply_doctype_only"
  by (simp add: reply_doctype_only_def text_defs)

lemma strip_dotted_capital: "py_strip reply_dotted_capital = reply_dotted_capital"
  by (simp add: reply_dotted_capital_def text_defs)

lemma validate_dotted_capital:
  "validate_output reply_dotted_capital w =
     (Some (lit ''html></html>''), emit [Print NoDoctype, Print (FoundHtmlAt 201)] w)"
  by (simp add: validate_output_def reply_dotted_capital_def text_defs Let_def)

lemma strip_five_dotted_capitals:
  "py_strip reply_five_dotted_capitals = candidate_five_dotted_capitals"
  by (simp add: reply_five_dotted_capitals_def candidate_five_dotted_capitals_def text_defs)

lemma validate_five_dotted_capitals:
  "validate_output candidate_five_dotted_capitals w =
     (Some (lit '' >''), emit [Print NoDoctype, Print (FoundHtmlAt 210)] w)"
  by (simp add: validate_output_def candidate_five_dotted_capitals_def text_defs Let_def)

lemma demo_apply:
  "confirm_and_apply demo_html_path hc html
      (preview_and_warn html (emit es (demo_fetched script t [answer_y]))) = (r, w') \<Longrightarrow>
   r = Inr Applied \<and> files w' demo_html_path = Some html"
  by (auto simp: flow_defs demo_defs affirmative_def text_defs)

subsection \<open>Properties of the flow\<close>

text \<open>
  C1: a second run on the same HTML text, HTML path and PDF text, started with the cache
  file as the first run's completion left it, builds the same request, finds it in the
  cache and makes no remote call (the number of calls is unchanged and the only events
  of the completion step are the two messages and the fixed wait); its candidate output
  is the one of the first run.
\<close>

theorem second_run_hits_cache:
  assumes ok: "json_codec_ok e"
    and docs: "load_documents e root html_rel_path w = (Inr (Inr (html_path, html_content, pdf_text)), w1)"
    and cand: "fetch_candidate e html_path html_content pdf_text w1 = (Inr updated_html, w2)"
    and same_html: "files v (os_path_join e root html_rel_path) = files w (os_path_join e root html_rel_path)"
    and same_pdf: "files v (os_path_join e root PDF_RELATIVE_PATH) = files w (os_path_join e root PDF_RELATIVE_PATH)"
    and kept: "cache_file v = cache_file w2"
  shows "\<exists>v1. load_documents e root html_rel_path v = (Inr (Inr (html_path, html_content, pdf_text)), v1)
           \<and> ncalls v1 = ncalls v
           \<and> fetch_candidate e html_path html_content pdf_text v1 =
               (Inr updated_html, emit [Print Sending, Sleep MODEL_WAIT_SECONDS, Print Generating] v1)"
proof -
  from docs same_html same_pdf obtain v1 where
    d2: "load_documents e root html_rel_path v = (Inr (Inr (html_path, html_content, pdf_text)), v1)"
    by (auto simp: load_documents_def Let_def read_file_def extract_pdf_text_def emit_def
        path_exists_def split: if_splits option.splits)
  from load_documents_frame [OF d2] have fr: "cache_file v1 = cache_file v" "ncalls v1 = ncalls v"
    by simp_all
  let ?m = "build_resume_update_messages html_path html_content pdf_text"
  let ?s = "[Print Sending, Sleep MODEL_WAIT_SECONDS, Print Generating]"
  from cand obtain resp where
    c1: "cached_generate e ?m (emit ?s w1) = (Inr resp, w2)" and u: "updated_html = py_strip resp"
    by (auto simp: fetch_candidate_def split: prod.splits sum.splits)
  have "cache_file (emit ?s v1) = cache_file w2"
    using fr kept by (simp add: emit_def)
  from cached_generate_again [OF ok c1 this] u
  have "fetch_candidate e html_path html_content pdf_text v1 = (Inr updated_html, emit ?s v1)"
    by (simp add: fetch_candidate_def)
  with d2 fr show ?thesis by blast
qed

theorem second_run_hits_cache_witness:
  "json_codec_ok (demo_env (\<lambda>n. Content reply_page))
   \<and> load_documents (demo_env (\<lambda>n. Content reply_page)) demo_root demo_rel
         (demo_world []) =
       (Inr (Inr (demo_html_path, demo_html_old, demo_pdf_text)), demo_loaded [])
   \<and> fetch_candidate (demo_env (\<lambda>n. Content reply_page)) demo_html_path demo_html_old
         demo_pdf_text (demo_loaded []) =
       (Inr reply_page, demo_fetched (\<lambda>n. Content reply_page) reply_page [])
   \<and> (\<exists>v1. load_documents (demo_env (\<lambda>n. Content reply_page)) demo_root demo_rel
               (demo_fetched (\<lambda>n. Content reply_page) reply_page []) =
             (Inr (Inr (demo_html_path, demo_html_old, demo_pdf_text)), v1)
           \<and> ncalls v1 = 1
           \<and> fetch_candidate (demo_env (\<lambda>n. Content reply_page)) demo_html_path
                 demo_html_old demo_pdf_text v1 =
               (Inr reply_page, emit [Print Sending, Sleep MODEL_WAIT_SECONDS, Print Generating] v1))"
proof -
  let ?e = "demo_env (\<lambda>n. Content reply_page)"
  let ?v = "demo_fetched (\<lambda>n. Content reply_page) reply_page []"
  have ok: "json_codec_ok ?e"
    by (rule demo_codec_ok)
  have docs: "load_documents ?e demo_root demo_rel (demo_world []) =
      (Inr (Inr (demo_html_path, demo_html_old, demo_pdf_text)), demo_loaded [])"
    by (rule demo_load_documents)
  have cand: "fetch_candidate ?e demo_html_path demo_html_old demo_pdf_text
      (demo_loaded []) = (Inr reply_page, ?v)"
    by (simp add: demo_fetch_candidate strip_page)
  have same_html: "files ?v (os_path_join ?e demo_root demo_rel) =
      files (demo_world []) (os_path_join ?e demo_root demo_rel)"
    by (simp add: demo_fetched_fields)
  have same_pdf: "files ?v (os_path_join ?e demo_root PDF_RELATIVE_PATH) =
      files (demo_world []) (os_path_join ?e demo_root PDF_RELATIVE_PATH)"
    by (simp add: demo_fetched_fields)
  from second_run_hits_cache [OF ok docs cand same_html same_pdf refl] ok docs cand
  show ?thesis
    by (simp add: demo_fetched_fields)
qed

text \<open>
  C3: when the candidate output has no \<open><html\<close> anywhere, in any letter case, the flow
  returns from the validation step: the operator is not asked, nothing is written or
  copied, and every document file is as it was before the run. (Whether there is a
  doctype plays no part.)
\<close>

theorem invalid_output_aborts:
  assumes docs: "load_documents e root html_rel_path w = (Inr (Inr (html_path, html_content, pdf_text)), w1)"
    and cand: "fetch_candidate e html_path html_content pdf_text w1 = (Inr updated_html, w2)"
    and nohtml: "\<not> py_in (lit ''<html'') (py_lower updated_html)"
  shows "fst (update_resume_flow e root html_rel_path w) = Inr InvalidOutput
         \<and> files (snd (update_resume_flow e root html_rel_path w)) = files w
         \<and> stdin (snd (update_resume_flow e root html_rel_path w)) = stdin w
         \<and> filter is_write (trace (snd (update_resume_flow e root html_rel_path w)))
             = filter is_write (trace w)"
proof -
  have nd: "\<not> py_in (lit ''<!DOCTYPE html>'') (py_lower (take 100 updated_html))"
    by (rule doctype_never_found)
  have n200: "\<not> py_in (lit ''<html'') (py_lower (take 200 updated_html))"
    using nohtml py_in_lower_take by blast
  from nohtml have "py_find (py_lower updated_html) (lit ''<html'') = - 1"
    by (simp add: py_in_def)
  with nd n200 have v: "validate_output updated_html w2 =
      (None, emit [Print NoDoctype, Print NotValidHtml, Print First500,
                  Print (Excerpt (take 500 updated_html))] w2)"
    by (simp add: validate_output_def)
  from docs cand v have "update_resume_flow e root html_rel_path w =
           (Inr InvalidOutput,
            emit [Print NoDoctype, Print NotValidHtml, Print First500,
                  Print (Excerpt (take 500 updated_html))] w2)"
    by (simp add: update_resume_flow_def)
  moreover from load_documents_frame [OF docs] fetch_candidate_frame [OF cand]
  have "files w2 = files w \<and> stdin w2 = stdin w
      \<and> filter is_write (trace w2) = filter is_write (trace w)"
    by simp
  ultimately show ?thesis
    by (simp add: emit_def is_write_def)
qed

theorem invalid_output_aborts_witness:
  "load_documents (demo_env (\<lambda>n. Content reply_refusal)) demo_root demo_rel
       (demo_world [answer_y]) =
     (Inr (Inr (demo_html_path, demo_html_old, demo_pdf_text)),
      demo_loaded [answer_y])
   \<and> fetch_candidate (demo_env (\<lambda>n. Content reply_refusal)) demo_html_path
         demo_html_old demo_pdf_text (demo_loaded [answer_y]) =
       (Inr (lit ''Sorry, I cannot help with that.''),
        demo_fetched (\<lambda>n. Content reply_refusal) reply_refusal [answer_y])
   \<and> \<not> py_in (lit ''<html'') (py_lower (lit ''Sorry, I cannot help with that.''))
   \<and> fst (update_resume_flow (demo_env (\<lambda>n. Content reply_refusal)) demo_root
             demo_rel (demo_world [answer_y])) = Inr InvalidOutput
   \<and> files (snd (update_resume_flow (demo_env (\<lambda>n. Content reply_refusal)) demo_root
             demo_rel (demo_world [answer_y]))) = files (demo_world [answer_y])
   \<and> stdin (snd (update_resume_flow (demo_env (\<lambda>n. Content reply_refusal)) demo_root
             demo_rel (demo_world [answer_y]))) = [answer_y]"
proof -
  let ?e = "demo_env (\<lambda>n. Content reply_refusal)"
  have docs: "load_documents ?e demo_root demo_rel (demo_world [answer_y]) =
      (Inr (Inr (demo_html_path, demo_html_old, demo_pdf_text)),
       demo_loaded [answer_y])"
    by (rule demo_load_documents)
  have cand: "fetch_candidate ?e demo_html_path demo_html_old demo_pdf_text
      (demo_loaded [answer_y]) =
      (Inr (lit ''Sorry, I cannot help with that.''),
       demo_fetched (\<lambda>n. Content reply_refusal) reply_refusal [answer_y])"
    by (simp only: demo_fetch_candidate strip_refusal)
  have nohtml: "\<not> py_in (lit ''<html'') (py_lower (lit ''Sorry, I cannot help with that.''))"
    by (simp add: text_defs)
  have "stdin (demo_world [answer_y]) = [answer_y]"
    by (simp add: demo_world_def)
  with invalid_output_aborts [OF docs cand nohtml] docs cand nohtml
  show ?thesis
    by simp
qed

text \<open>
  C4: when the PDF path does not exist, the flow returns normally (no exception) after
  one message, before any file is read and before any remote call: the state is the one
  before the run but for that message. (It is the message about the HTML file when that
  one is missing too.)
\<close>

theorem pdf_missing_aborts:
  assumes "files w (os_path_join e root PDF_RELATIVE_PATH) = None"
  shows "update_resume_flow e root html_rel_path w =
           (if files w (os_path_join e root html_rel_path) = None
            then (Inr HtmlMissing, emit [Print (HtmlNotFound (os_path_join e root html_rel_path))] w)
            else (Inr PdfMissing, emit [Print (PdfNotFound (os_path_join e root PDF_RELATIVE_PATH))] w))"
  using assms
  by (simp add: update_resume_flow_def load_documents_def path_exists_def Let_def)

theorem pdf_missing_aborts_witness:
  "files ((demo_world [])\<lparr>files := [demo_html_path \<mapsto> demo_html_old]\<rparr>)
       (os_path_join (demo_env (\<lambda>n. Content reply_page)) demo_root PDF_RELATIVE_PATH) = None
   \<and> update_resume_flow (demo_env (\<lambda>n. Content reply_page)) demo_root demo_rel
         ((demo_world [])\<lparr>files := [demo_html_path \<mapsto> demo_html_old]\<rparr>) =
       (Inr PdfMissing,
        emit [Print (PdfNotFound demo_pdf_path)]
          ((demo_world [])\<lparr>files := [demo_html_path \<mapsto> demo_html_old]\<rparr>))"
proof -
  let ?e = "demo_env (\<lambda>n. Content reply_page)"
  let ?w = "(demo_world [])\<lparr>files := [demo_html_path \<mapsto> demo_html_old]\<rparr>"
  have missing: "files ?w (os_path_join ?e demo_root PDF_RELATIVE_PATH) = None"
    by (simp add: demo_defs PDF_RELATIVE_PATH_def)
  have "os_path_join ?e demo_root PDF_RELATIVE_PATH = demo_pdf_path"
    by (simp add: demo_defs PDF_RELATIVE_PATH_def)
  moreover have "files ?w (os_path_join ?e demo_root demo_rel) \<noteq> None"
    by (simp add: demo_defs)
  ultimately show ?thesis
    using pdf_missing_aborts [OF missing, of "demo_rel"] missing
    by simp
qed

text \<open>
  C5: when the remote call raises an \<open>APIError\<close> on the first and on the second attempt
  and answers on the third, the client returns the third answer; three remote calls were
  made, and between them exactly two delays, of 3 and then 6 seconds (3 times the number
  of the attempt), the second longer than the first.
\<close>

theorem generate_response_third_attempt:
  assumes "api_key e \<noteq> []"
    and "completion e (ncalls w) msgs = ApiError x1"
    and "completion e (Suc (ncalls w)) msgs = ApiError x2"
    and "completion e (Suc (Suc (ncalls w))) msgs = Content t"
  shows "generate_response e msgs 3 w =
           (Inr t, w\<lparr>ncalls := ncalls w + 3,
                     trace := trace w @
                       [RemoteCall (ncalls w), Print (LlmRetry 1), Sleep 3,
                        RemoteCall (ncalls w + 1), Print (LlmRetry 2), Sleep 6,
                        RemoteCall (ncalls w + 2)]\<rparr>)
         \<and> sorted_wrt (<)
               [d. Sleep d \<leftarrow> drop (length (trace w)) (trace (snd (generate_response e msgs 3 w)))]"
  using assms
  by (simp add: generate_response_def emit_def numeral_3_eq_3 Let_def)

theorem generate_response_third_attempt_witness:
  "api_key (demo_env (\<lambda>n. if n < 2 then ApiError (lit ''rate limit'') else Content reply_page)) \<noteq> []
   \<and> completion (demo_env (\<lambda>n. if n < 2 then ApiError (lit ''rate limit'') else Content reply_page))
         (ncalls (demo_world [])) demo_messages = ApiError (lit ''rate limit'')
   \<and> completion (demo_env (\<lambda>n. if n < 2 then ApiError (lit ''rate limit'') else Content reply_page))
         (Suc (ncalls (demo_world []))) demo_messages = ApiError (lit ''rate limit'')
   \<and> completion (demo_env (\<lambda>n. if n < 2 then ApiError (lit ''rate limit'') else Content reply_page))
         (Suc (Suc (ncalls (demo_world [])))) demo_messages = Content reply_page
   \<and> generate_response
         (demo_env (\<lambda>n. if n < 2 then ApiError (lit ''rate limit'') else Content reply_page))
         demo_messages 3 (demo_world []) =
       (Inr reply_page,
        (demo_world [])\<lparr>ncalls := 3,
           trace := [RemoteCall 0, Print (LlmRetry 1), Sleep 3,
                     RemoteCall 1, Print (LlmRetry 2), Sleep 6, RemoteCall 2]\<rparr>)"
  using generate_response_third_attempt
    [of "demo_env (\<lambda>n. if n < 2 then ApiError (lit ''rate limit'') else Content reply_page)"
        "demo_world []" demo_messages "lit ''rate limit''" "lit ''rate limit''" reply_page]
  by (simp add: demo_env_def demo_world_def)

text \<open>
  C6 (as the code has it): the test for the doctype looks for \<open><!DOCTYPE html>\<close>, written
  with capitals, in a text that was lower-cased before, so it never succeeds. A candidate
  output that begins with the doctype and has no \<open><html\<close> tag is rejected, and the flow
  returns without asking the operator.
\<close>

theorem doctype_only_is_rejected:
  "startswith reply_doctype_only (lit ''<!DOCTYPE html>'')
   \<and> fst (update_resume_flow (demo_env (\<lambda>n. Content reply_doctype_only)) demo_root demo_rel
        (demo_world [answer_y])) = Inr InvalidOutput
   \<and> files (snd (update_resume_flow (demo_env (\<lambda>n. Content reply_doctype_only)) demo_root demo_rel
        (demo_world [answer_y]))) = files (demo_world [answer_y])
   \<and> stdin (snd (update_resume_flow (demo_env (\<lambda>n. Content reply_doctype_only)) demo_root demo_rel
        (demo_world [answer_y]))) = [answer_y]"
proof -
  have v: "\<And>w. validate_output reply_doctype_only w =
      (None, emit [Print NoDoctype, Print NotValidHtml, Print First500,
                   Print (Excerpt reply_doctype_only)] w)"
    by (simp add: validate_output_def reply_doctype_only_def text_defs Let_def)
  have "update_resume_flow (demo_env (\<lambda>n. Content reply_doctype_only)) demo_root demo_rel
        (demo_world [answer_y]) =
      (Inr InvalidOutput,
       emit [Print NoDoctype, Print NotValidHtml, Print First500,
             Print (Excerpt reply_doctype_only)]
         (demo_fetched (\<lambda>n. Content reply_doctype_only) reply_doctype_only [answer_y]))"
    by (simp add: update_resume_flow_def demo_load_documents demo_fetch_candidate
        strip_doctype_only v)
  moreover have "startswith reply_doctype_only (lit ''<!DOCTYPE html>'')"
    by (simp add: reply_doctype_only_def)
  ultimately show ?thesis
    by (simp add: emit_def demo_fetched_fields)
qed

text \<open>
  C7 (as the code has it): the offset of \<open><html\<close> is looked up in the lower-cased copy
  of the output and then used to cut the output itself. U+0130 has a lower-case form of
  two code points, so after one U+0130 the offset is one too far: for an output in
  which \<open><html\<close> is at offset 200, the file written is the output without its first 201
  code points, which begins with \<open>html>\<close>.
\<close>

theorem trim_after_dotted_capital:
  "py_find reply_dotted_capital (lit ''<html'') = 200
   \<and> drop 200 reply_dotted_capital = lit ''<html></html>''
   \<and> fst (update_resume_flow (demo_env (\<lambda>n. Content reply_dotted_capital)) demo_root demo_rel
        (demo_world [answer_y])) = Inr Applied
   \<and> files (snd (update_resume_flow (demo_env (\<lambda>n. Content reply_dotted_capital)) demo_root demo_rel
        (demo_world [answer_y]))) demo_html_path = Some (lit ''html></html>'')"
proof -
  have "update_resume_flow (demo_env (\<lambda>n. Content reply_dotted_capital)) demo_root demo_rel
        (demo_world [answer_y]) =
      confirm_and_apply demo_html_path demo_html_old (lit ''html></html>'')
        (preview_and_warn (lit ''html></html>'')
          (emit [Print NoDoctype, Print (FoundHtmlAt 201)]
            (demo_fetched (\<lambda>n. Content reply_dotted_capital) reply_dotted_capital [answer_y])))"
    by (simp add: update_resume_flow_def demo_load_documents demo_fetch_candidate
        strip_dotted_capital validate_dotted_capital)
  from demo_apply [OF trans [OF this [symmetric] surjective_pairing]]
  have "fst (update_resume_flow (demo_env (\<lambda>n. Content reply_dotted_capital)) demo_root demo_rel
        (demo_world [answer_y])) = Inr Applied
      \<and> files (snd (update_resume_flow (demo_env (\<lambda>n. Content reply_dotted_capital)) demo_root demo_rel
        (demo_world [answer_y]))) demo_html_path = Some (lit ''html></html>'')" .
  moreover have "py_find reply_dotted_capital (lit ''<html'') = 200
      \<and> drop 200 reply_dotted_capital = lit ''<html></html>''"
    by (simp add: reply_dotted_capital_def py_find_def)
  ultimately show ?thesis
    by simp
qed

text \<open>
  C8: when the answer to the final question is not \<open>y\<close> (after \<open>strip\<close> and \<open>lower\<close>), an
  empty line included, the flow returns as cancelled: nothing is written or copied, and
  every document file, so the HTML file and its backup, is as it was before the run.
\<close>

theorem decline_leaves_files:
  assumes docs: "load_documents e root html_rel_path w = (Inr (Inr (html_path, html_content, pdf_text)), w1)"
    and cand: "fetch_candidate e html_path html_content pdf_text w1 = (Inr updated_html, w2)"
    and valid: "validate_output updated_html w2 = (Some html, w3)"
    and answers: "stdin w = (if path_exists w (html_path @ BACKUP_SUFFIX) then [b] else []) @ answer # rest"
    and decline: "\<not> affirmative answer"
  shows "fst (update_resume_flow e root html_rel_path w) = Inr Cancelled
         \<and> files (snd (update_resume_flow e root html_rel_path w)) = files w
         \<and> filter is_write (trace (snd (update_resume_flow e root html_rel_path w)))
             = filter is_write (trace w)"
proof -
  let ?w4 = "preview_and_warn html w3"
  from load_documents_frame [OF docs] fetch_candidate_frame [OF cand]
    validate_output_frame [OF valid] preview_and_warn_frame [of html w3]
  have fr: "files ?w4 = files w" "stdin ?w4 = stdin w"
    "filter is_write (trace ?w4) = filter is_write (trace w)"
    by simp_all
  then have pe: "path_exists ?w4 (html_path @ BACKUP_SUFFIX) = path_exists w (html_path @ BACKUP_SUFFIX)"
    by (simp add: path_exists_def)
  from answers fr pe have "stdin ?w4 =
      (if path_exists ?w4 (html_path @ BACKUP_SUFFIX) then [b] else []) @ answer # rest"
    by simp
  from confirm_and_apply_decline [OF this decline, of html_content html] fr
  have "fst (confirm_and_apply html_path html_content html ?w4) = Inr Cancelled
         \<and> files (snd (confirm_and_apply html_path html_content html ?w4)) = files w
         \<and> filter is_write (trace (snd (confirm_and_apply html_path html_content html ?w4)))
             = filter is_write (trace w)"
    by simp
  moreover from docs cand valid have "update_resume_flow e root html_rel_path w =
      confirm_and_apply html_path html_content html ?w4"
    by (simp add: update_resume_flow_def)
  ultimately show ?thesis by simp
qed

theorem decline_leaves_files_witness:
  "load_documents (demo_env (\<lambda>n. Content reply_page)) demo_root demo_rel
       (demo_world [[]]) =
     (Inr (Inr (demo_html_path, demo_html_old, demo_pdf_text)),
      demo_loaded [[]])
   \<and> fetch_candidate (demo_env (\<lambda>n. Content reply_page)) demo_html_path
         demo_html_old demo_pdf_text (demo_loaded [[]]) =
       (Inr reply_page, demo_fetched (\<lambda>n. Content reply_page) reply_page [[]])
   \<and> validate_output reply_page (demo_fetched (\<lambda>n. Content reply_page) reply_page [[]]) =
       (Some reply_page, demo_fetched (\<lambda>n. Content reply_page) reply_page [[]])
   \<and> stdin (demo_world [[]]) =
       (if path_exists (demo_world [[]]) (demo_html_path @ BACKUP_SUFFIX) then [[]] else [])
       @ [] # []
   \<and> \<not> affirmative []
   \<and> fst (update_resume_flow (demo_env (\<lambda>n. Content reply_page)) demo_root
             demo_rel (demo_world [[]])) = Inr Cancelled
   \<and> files (snd (update_resume_flow (demo_env (\<lambda>n. Content reply_page)) demo_root
             demo_rel (demo_world [[]]))) = files (demo_world [[]])
   \<and> filter is_write (trace (snd (update_resume_flow (demo_env (\<lambda>n. Content reply_page))
             demo_root demo_rel (demo_world [[]])))) = []"
proof -
  let ?e = "demo_env (\<lambda>n. Content reply_page)"
  let ?w2 = "demo_fetched (\<lambda>n. Content reply_page) reply_page [[]]"
  have docs: "load_documents ?e demo_root demo_rel (demo_world [[]]) =
      (Inr (Inr (demo_html_path, demo_html_old, demo_pdf_text)),
       demo_loaded [[]])"
    by (rule demo_load_documents)
  have cand: "fetch_candidate ?e demo_html_path demo_html_old demo_pdf_text
      (demo_loaded [[]]) = (Inr reply_page, ?w2)"
    by (simp add: demo_fetch_candidate strip_page)
  have valid: "validate_output reply_page ?w2 = (Some reply_page, ?w2)"
    by (rule validate_page)
  have answers: "stdin (demo_world [[]]) =
      (if path_exists (demo_world [[]]) (demo_html_path @ BACKUP_SUFFIX) then [[]] else [])
      @ [] # []"
    by (simp add: demo_defs path_exists_def BACKUP_SUFFIX_def PDF_RELATIVE_PATH_def)
  have no_writes: "filter is_write (trace (demo_world [[]])) = []"
    by (simp add: demo_world_def)
  from decline_leaves_files [OF docs cand valid answers not_affirmative_empty]
    docs cand valid answers not_affirmative_empty no_writes
  show ?thesis
    by simp
qed

text \<open>
  C9: when the cache file does not parse, \<open>_load_cache\<close> returns the empty table and the
  cached completion goes as it does without a cache file: the same result and, when the
  completion succeeds, the same state, in which the cache file holds the table with the
  one new entry. (When the completion fails, the file that does not parse stays.)
\<close>

theorem corrupt_cache_is_empty:
  assumes cfile: "cache_file w = Some s"
    and corrupt: "json_load e s = None"
  shows "load_cache e w = []
         \<and> cached_generate e msgs w =
             (case cached_generate e msgs (w\<lparr>cache_file := None\<rparr>) of
                (Inl x, w') \<Rightarrow> (Inl x, w'\<lparr>cache_file := Some s\<rparr>)
              | (Inr resp, w') \<Rightarrow> (Inr resp, w'))
         \<and> (\<forall>resp w'. cached_generate e msgs w = (Inr resp, w') \<longrightarrow>
               cache_file w' = Some (json_dump e [(cache_key e msgs, resp)]))"
proof -
  have l: "load_cache e w = []"
    using cfile corrupt by (simp add: load_cache_def)
  have l0: "load_cache e (w\<lparr>cache_file := None\<rparr>) = []"
    by (simp add: load_cache_def)
  obtain r w1 where g: "attempts e msgs 3 1 None w = (r, w1)" by force
  have c1: "cache_file w1 = Some s"
    using attempts_cache_file_kept [of e msgs 3 1 None w] g cfile by simp
  have g0: "attempts e msgs 3 1 None (w\<lparr>cache_file := None\<rparr>) = (r, w1\<lparr>cache_file := None\<rparr>)"
    using attempts_cache_file [where e = e and msgs = msgs and n = 3 and a = 1 and l = None and w = w and c = None] g by simp
  have w1': "w1\<lparr>cache_file := Some s\<rparr> = w1"
    using c1 by simp
  show ?thesis
  proof (cases r)
    case (Inl x)
    with l l0 g g0 w1' show ?thesis
      by (simp add: cached_generate_def generate_response_def)
  next
    case (Inr resp)
    with l l0 g g0 show ?thesis
      by (simp add: cached_generate_def generate_response_def save_cache_def)
  qed
qed

theorem corrupt_cache_is_empty_witness:
  "cache_file ((demo_world [])\<lparr>cache_file := Some (lit ''{not json'')\<rparr>) = Some (lit ''{not json'')
   \<and> json_load (demo_env (\<lambda>n. Content reply_page)) (lit ''{not json'') = None
   \<and> load_cache (demo_env (\<lambda>n. Content reply_page))
         ((demo_world [])\<lparr>cache_file := Some (lit ''{not json'')\<rparr>) = []
   \<and> cached_generate (demo_env (\<lambda>n. Content reply_page)) demo_messages
         ((demo_world [])\<lparr>cache_file := Some (lit ''{not json'')\<rparr>) =
       (Inr reply_page,
        (demo_world [])
          \<lparr>cache_file :=
             Some (demo_dump [(cache_key (demo_env (\<lambda>n. Content reply_page)) demo_messages,
                               reply_page)]),
           ncalls := 1, trace := [RemoteCall 0]\<rparr>)"
proof -
  let ?e = "demo_env (\<lambda>n. Content reply_page)"
  let ?w = "(demo_world [])\<lparr>cache_file := Some (lit ''{not json'')\<rparr>"
  have cfile: "cache_file ?w = Some (lit ''{not json'')"
    by simp
  have corrupt: "json_load ?e (lit ''{not json'') = None"
    by (simp add: demo_env_def demo_load_def)
  have without: "cached_generate ?e demo_messages (?w\<lparr>cache_file := None\<rparr>) =
      (Inr reply_page,
       (demo_world [])
         \<lparr>cache_file := Some (demo_dump [(cache_key ?e demo_messages, reply_page)]),
          ncalls := 1, trace := [RemoteCall 0]\<rparr>)"
    using cached_generate_miss [of "?w\<lparr>cache_file := None\<rparr>" ?e demo_messages reply_page]
    by (simp add: demo_env_def demo_world_def)
  note main = corrupt_cache_is_empty [OF cfile corrupt, of demo_messages]
  from main have empty: "load_cache ?e ?w = []"
    by (rule conjunct1)
  from main have "cached_generate ?e demo_messages ?w =
      (case cached_generate ?e demo_messages (?w\<lparr>cache_file := None\<rparr>) of
         (Inl x, w') \<Rightarrow> (Inl x, w'\<lparr>cache_file := Some (lit ''{not json'')\<rparr>)
       | (Inr resp, w') \<Rightarrow> (Inr resp, w'))"
    by (rule conjunct1 [OF conjunct2])
  then have "cached_generate ?e demo_messages ?w =
      (Inr reply_page,
       (demo_world [])
         \<lparr>cache_file := Some (demo_dump [(cache_key ?e demo_messages, reply_page)]),
          ncalls := 1, trace := [RemoteCall 0]\<rparr>)"
    by (simp only: without prod.case sum.case)
  with cfile corrupt empty show ?thesis
    by (intro conjI)
qed

text \<open>
  C10 (as the code has it): the completion result is stripped before it is checked, so
  the candidate output has no whitespace at either end. The cut of C7 then uses an
  offset that is too far by the number of U+0130 before \<open><html\<close>: with five of them and
  the tag \<open><html >\<close>, the file written is a space followed by \<open>>\<close>.
\<close>

theorem written_output_begins_with_space:
  "py_strip reply_five_dotted_capitals = candidate_five_dotted_capitals
   \<and> fst (update_resume_flow (demo_env (\<lambda>n. Content reply_five_dotted_capitals)) demo_root demo_rel
        (demo_world [answer_y])) = Inr Applied
   \<and> files (snd (update_resume_flow (demo_env (\<lambda>n. Content reply_five_dotted_capitals)) demo_root demo_rel
        (demo_world [answer_y]))) demo_html_path = Some (lit '' >'')
   \<and> is_space (hd (lit '' >''))"
proof -
  have "update_resume_flow (demo_env (\<lambda>n. Content reply_five_dotted_capitals)) demo_root demo_rel
        (demo_world [answer_y]) =
      confirm_and_apply demo_html_path demo_html_old (lit '' >'')
        (preview_and_warn (lit '' >'')
          (emit [Print NoDoctype, Print (FoundHtmlAt 210)]
            (demo_fetched (\<lambda>n. Content reply_five_dotted_capitals) reply_five_dotted_capitals
               [answer_y])))"
    by (simp add: update_resume_flow_def demo_load_documents demo_fetch_candidate
        strip_five_dotted_capitals validate_five_dotted_capitals)
  from demo_apply [OF trans [OF this [symmetric] surjective_pairing]]
  have "fst (update_resume_flow (demo_env (\<lambda>n. Content reply_five_dotted_capitals)) demo_root demo_rel
        (demo_world [answer_y])) = Inr Applied
      \<and> files (snd (update_resume_flow (demo_env (\<lambda>n. Content reply_five_dotted_capitals)) demo_root demo_rel
        (demo_world [answer_y]))) demo_html_path = Some (lit '' >'')" .
  moreover have "is_space (hd (lit '' >''))"
    by (simp add: is_space_def)
  ultimately show ?thesis
    by (simp add: strip_five_dotted_capitals)
qed

end
